theory Spec2Isabelle
  imports Main "HOL-Library.Char_ord" "HOL-Library.List_Lexorder"
begin

section \<open>Data model (internal/model)\<close>

text \<open>
  The structs of \<^verbatim>\<open>internal/model\<close>. Field names are those of the Go structs, prefixed
  where two structs share a name. Go strings are \<^typ>\<open>string\<close>; with
  \<^verbatim>\<open>Char_ord\<close> and \<^verbatim>\<open>List_Lexorder\<close> the order on them is the byte-wise
  lexicographic order that \<^verbatim>\<open>sort.Strings\<close> uses. Counters are \<^typ>\<open>nat\<close>: they
  only count elements of slices.
\<close>

record Node =
  ID :: string
  node_Name :: string
  Drain :: bool
  SchedulingEligibility :: string
  node_Status :: string

definition IsReady :: "Node \<Rightarrow> bool" where
  "IsReady n \<longleftrightarrow> \<not> Drain n \<and> SchedulingEligibility n = ''eligible''"

record Job =
  job_ID :: string
  job_Status :: string

record Datacenter =
  dc_Name :: string
  dc_Region :: string
  dc_Status :: string
  NodesTotal :: nat
  NodesReady :: nat
  NodesDraining :: nat
  dc_JobsTotal :: nat
  dc_JobsRunning :: nat
  dc_JobsStopped :: nat

record Region =
  rg_Name :: string
  Datacenters :: "Datacenter list"
  rg_Status :: string
  rg_JobsTotal :: nat
  rg_JobsRunning :: nat
  rg_JobsStopped :: nat

record ActiveDatacenter =
  ad_Datacenter :: string
  ActivatedAt :: int
  ActivatedBy :: string
  LastHeartbeat :: int

definition DatacenterStatusActive :: string where
  "DatacenterStatusActive = ''active''"

definition DatacenterStatusDraining :: string where
  "DatacenterStatusDraining = ''draining''"

definition DatacenterStatusError :: string where
  "DatacenterStatusError = ''error''"

text \<open>Errors returned by the repository and service functions, one constructor per
  \<^verbatim>\<open>fmt.Errorf\<close> site that the modelled code reaches.\<close>

datatype error =
    ClusterNotFound string
  | ListNodesFailed string
  | SetNodeDrainFailed string string
  | ListJobsFailed string
  | TriggerEvalFailed string
  | EtcdReadFailed
  | EtcdNotFound
  | EtcdWriteFailed
  | FailedToListNodes error
  | FailedToGetNodes error
  | FailedToDrainNode string error
  | FailedToDrainNodes error
  | TargetNotFound string error
  | RegionNotFound string
  | FreshHeartbeatFound

text \<open>The strings appended to \<^verbatim>\<open>ActivationResult.Errors\<close>.\<close>

datatype errmsg =
    ClusterFetchMsg string error
  | NodeWriteMsg string string error
  | EvalMsg string error
  | EtcdMsg error

record ActivationResult =
  Activated :: string
  DrainedNodes :: nat
  UnDrainedNodes :: nat
  Errors :: "errmsg list"

section \<open>State of the service and of the systems it talks to\<close>

text \<open>
  One record holds what the code reads and writes:
  \<^item> \<open>clusters\<close>: the map \<^verbatim>\<open>nomadRepository.clusters\<close> (cluster key to region), as an
    association list read through \<^const>\<open>map_of\<close>; the metadata's \<^verbatim>\<open>name\<close> is the key;
  \<^item> \<open>nomad_nodes\<close>: the nodes each Nomad cluster currently reports; \<open>list_fails\<close>,
    \<open>drain_fails\<close>, \<open>nomad_jobs\<close>, \<open>eval_fails\<close>: whether the Nomad API calls fail;
  \<^item> \<open>cache\<close>: the TTL cache, keyed by the strings the service builds;
  \<^item> \<open>drain_calls\<close>: every \<^verbatim>\<open>SetNodeDrain\<close> call issued so far (cluster, node id, drain,
    whether it succeeded), oldest first;
  \<^item> \<open>etcd_record\<close>: the value under the active-datacenter key; \<open>etcd_writes\<close>: every
    \<^verbatim>\<open>WriteActiveDatacenter\<close> call issued so far, oldest first;
  \<^item> \<open>clock\<close>, \<open>clock_reads\<close>: the successive readings of \<^verbatim>\<open>time.Now\<close>;
  \<^item> the fields of \<^verbatim>\<open>datacenterService\<close>: \<open>myDatacenter\<close>, \<open>amDrained\<close>, the
    heartbeat configuration and the health checker's active region.
\<close>

record world =
  clusters :: "(string \<times> string) list"
  nomad_nodes :: "string \<Rightarrow> Node list"
  list_fails :: "string \<Rightarrow> bool"
  drain_fails :: "string \<Rightarrow> string \<Rightarrow> bool"
  nomad_jobs :: "string \<Rightarrow> Job list option"
  eval_fails :: "string \<Rightarrow> bool"
  cache :: "string \<rightharpoonup> Node list"
  drain_calls :: "(string \<times> string \<times> bool \<times> bool) list"
  etcd_record :: "ActiveDatacenter option"
  etcd_read_fails :: bool
  etcd_write_fails :: bool
  etcd_writes :: "ActiveDatacenter list"
  clock :: "nat \<Rightarrow> int"
  clock_reads :: nat
  myDatacenter :: string
  amDrained :: bool
  StaleThreshold :: int
  MaxFailures :: int
  hasHealthChecker :: bool
  hc_active_region :: "string option"

section \<open>Parallel executor (internal/concurrent)\<close>

text \<open>
  \<^verbatim>\<open>ParallelMap\<close> runs \<open>fn\<close> on every item and returns the results in input order, after
  all of them have finished. The model runs the items one after the other, threading the
  state. The functions it is used with touch, for each item, the cache key, the nodes and
  the call log of that item's cluster only.
\<close>

fun ParallelMap :: "('s \<Rightarrow> 'a \<Rightarrow> 'b \<times> 's) \<Rightarrow> 's \<Rightarrow> 'a list \<Rightarrow> 'b list \<times> 's" where
  "ParallelMap fn w [] = ([], w)"
| "ParallelMap fn w (item # items) =
     (case fn w item of (r, w') \<Rightarrow>
        (case ParallelMap fn w' items of (rs, w'') \<Rightarrow> (r # rs, w'')))"

section \<open>Cluster repository (internal/repository/nomad_client.go)\<close>

definition GetClusterNames :: "world \<Rightarrow> string list" where
  "GetClusterNames w = sort (remdups (map fst (clusters w)))"

definition GetClusterRegion :: "world \<Rightarrow> string \<Rightarrow> error + string" where
  "GetClusterRegion w clusterName =
     (case map_of (clusters w) clusterName of
        None \<Rightarrow> Inl (ClusterNotFound clusterName)
      | Some region \<Rightarrow> Inr region)"

definition GetClustersByRegion :: "world \<Rightarrow> string \<Rightarrow> string list" where
  "GetClustersByRegion w region =
     sort (filter (\<lambda>name. map_of (clusters w) name = Some region)
             (remdups (map fst (clusters w))))"


definition ListNodes :: "world \<Rightarrow> string \<Rightarrow> error + Node list" where
  "ListNodes w clusterName =
     (case map_of (clusters w) clusterName of
        None \<Rightarrow> Inl (ClusterNotFound clusterName)
      | Some region \<Rightarrow>
          if list_fails w clusterName then Inl (ListNodesFailed clusterName)
          else Inr (nomad_nodes w clusterName))"

text \<open>
  What a successful drain update does to a node of the cluster:
  \<^verbatim>\<open>markEligible := !drain\<close>, so the node ends with \<open>Drain = drain\<close> and is eligible
  exactly when it is not draining.
\<close>

definition updateDrain :: "bool \<Rightarrow> Node \<Rightarrow> Node" where
  "updateDrain drain n =
     n\<lparr>Drain := drain,
       SchedulingEligibility := (if drain then ''ineligible'' else ''eligible'')\<rparr>"

definition SetNodeDrain :: "world \<Rightarrow> string \<Rightarrow> string \<Rightarrow> bool \<Rightarrow> error option \<times> world" where
  "SetNodeDrain w clusterName nodeID drain =
     (case map_of (clusters w) clusterName of
        None \<Rightarrow>
          (Some (ClusterNotFound clusterName),
           w\<lparr>drain_calls := drain_calls w @ [(clusterName, nodeID, drain, False)]\<rparr>)
      | Some region \<Rightarrow>
          if drain_fails w clusterName nodeID then
            (Some (SetNodeDrainFailed clusterName nodeID),
             w\<lparr>drain_calls := drain_calls w @ [(clusterName, nodeID, drain, False)]\<rparr>)
          else
            (None,
             w\<lparr>nomad_nodes := (nomad_nodes w)(clusterName :=
                    map (\<lambda>n. if ID n = nodeID then updateDrain drain n else n)
                      (nomad_nodes w clusterName)),
               drain_calls := drain_calls w @ [(clusterName, nodeID, drain, True)]\<rparr>))"

definition ListJobs :: "world \<Rightarrow> string \<Rightarrow> error + Job list" where
  "ListJobs w clusterName =
     (case map_of (clusters w) clusterName of
        None \<Rightarrow> Inl (ClusterNotFound clusterName)
      | Some region \<Rightarrow>
          (case nomad_jobs w clusterName of
             None \<Rightarrow> Inl (ListJobsFailed clusterName)
           | Some jobs \<Rightarrow> Inr jobs))"

definition TriggerJobEvaluations :: "world \<Rightarrow> string \<Rightarrow> error option" where
  "TriggerJobEvaluations w clusterName =
     (case map_of (clusters w) clusterName of
        None \<Rightarrow> Some (ClusterNotFound clusterName)
      | Some region \<Rightarrow>
          if eval_fails w clusterName then Some (TriggerEvalFailed clusterName) else None)"

section \<open>Datacenter service: views\<close>

definition cacheKey :: "string \<Rightarrow> string" where
  "cacheKey dc = dc @ '':nodes''"

definition GetNodes :: "world \<Rightarrow> string \<Rightarrow> (error + Node list) \<times> world" where
  "GetNodes w dc =
     (case cache w (cacheKey dc) of
        Some nodes \<Rightarrow> (Inr nodes, w)
      | None \<Rightarrow>
          (case ListNodes w dc of
             Inl err \<Rightarrow> (Inl (FailedToListNodes err), w)
           | Inr nodes \<Rightarrow> (Inr nodes, w\<lparr>cache := (cache w)(cacheKey dc \<mapsto> nodes)\<rparr>)))"

text \<open>The loop of \<^verbatim>\<open>getDatacenterInfo\<close> over the nodes: (ready, draining) counts.\<close>

fun countNodes :: "Node list \<Rightarrow> nat \<times> nat \<Rightarrow> nat \<times> nat" where
  "countNodes [] acc = acc"
| "countNodes (node # nodes) (ready, draining) =
     (if Drain node then countNodes nodes (ready, draining + 1)
      else if SchedulingEligibility node = ''eligible'' then countNodes nodes (ready + 1, draining)
      else countNodes nodes (ready, draining + 1))"

text \<open>The loop over the jobs: (running, stopped) counts.\<close>

fun countJobs :: "Job list \<Rightarrow> nat \<times> nat \<Rightarrow> nat \<times> nat" where
  "countJobs [] acc = acc"
| "countJobs (job # jobs) (running, stopped) =
     (if job_Status job = ''running'' then countJobs jobs (running + 1, stopped)
      else if job_Status job = ''dead'' then countJobs jobs (running, stopped + 1)
      else countJobs jobs (running, stopped))"

definition getDatacenterInfo :: "world \<Rightarrow> string \<Rightarrow> (error + Datacenter) \<times> world" where
  "getDatacenterInfo w name =
     (case GetNodes w name of
        (Inl err, w') \<Rightarrow> (Inl err, w')
      | (Inr nodes, w') \<Rightarrow>
          (let region = (case GetClusterRegion w' name of Inl err \<Rightarrow> ''unknown'' | Inr r \<Rightarrow> r);
               counts = countNodes nodes (0, 0);
               status = (if snd counts = length nodes then DatacenterStatusDraining
                         else if fst counts > 0 then DatacenterStatusActive
                         else DatacenterStatusDraining);
               dc = \<lparr>dc_Name = name, dc_Region = region, dc_Status = status,
                     NodesTotal = length nodes, NodesReady = fst counts,
                     NodesDraining = snd counts,
                     dc_JobsTotal = 0, dc_JobsRunning = 0, dc_JobsStopped = 0\<rparr>
           in (case ListJobs w' name of
                 Inl err \<Rightarrow> (Inr dc, w')
               | Inr jobs \<Rightarrow>
                   (Inr (dc\<lparr>dc_JobsTotal := length jobs,
                            dc_JobsRunning := fst (countJobs jobs (0, 0)),
                            dc_JobsStopped := snd (countJobs jobs (0, 0))\<rparr>), w'))))"

definition listDatacenterItem :: "world \<Rightarrow> string \<Rightarrow> Datacenter \<times> world" where
  "listDatacenterItem w name =
     (case getDatacenterInfo w name of
        (Inl err, w') \<Rightarrow>
          (\<lparr>dc_Name = name, dc_Region = '''', dc_Status = DatacenterStatusError,
            NodesTotal = 0, NodesReady = 0, NodesDraining = 0,
            dc_JobsTotal = 0, dc_JobsRunning = 0, dc_JobsStopped = 0\<rparr>, w')
      | (Inr dc, w') \<Rightarrow> (dc, w'))"

definition ListDatacenters :: "world \<Rightarrow> (error + Datacenter list) \<times> world" where
  "ListDatacenters w =
     (case ParallelMap listDatacenterItem w (GetClusterNames w) of
        (datacenters, w') \<Rightarrow> (Inr datacenters, w'))"

definition regionDatacenterItem :: "string \<Rightarrow> world \<Rightarrow> string \<Rightarrow> Datacenter \<times> world" where
  "regionDatacenterItem regionName w name =
     (case getDatacenterInfo w name of
        (Inl err, w') \<Rightarrow>
          (\<lparr>dc_Name = name, dc_Region = regionName, dc_Status = DatacenterStatusError,
            NodesTotal = 0, NodesReady = 0, NodesDraining = 0,
            dc_JobsTotal = 0, dc_JobsRunning = 0, dc_JobsStopped = 0\<rparr>, w')
      | (Inr dc, w') \<Rightarrow> (dc, w'))"

text \<open>The counting loop of \<^verbatim>\<open>getRegionInfo\<close>: (activeCount, drainingCount, errorCount).\<close>

fun countStatuses :: "Datacenter list \<Rightarrow> nat \<times> nat \<times> nat \<Rightarrow> nat \<times> nat \<times> nat" where
  "countStatuses [] acc = acc"
| "countStatuses (dc # dcs) (activeCount, drainingCount, errorCount) =
     (if dc_Status dc = DatacenterStatusActive
        then countStatuses dcs (activeCount + 1, drainingCount, errorCount)
      else if dc_Status dc = DatacenterStatusDraining
        then countStatuses dcs (activeCount, drainingCount + 1, errorCount)
      else if dc_Status dc = DatacenterStatusError
        then countStatuses dcs (activeCount, drainingCount, errorCount + 1)
      else countStatuses dcs (activeCount, drainingCount, errorCount))"

definition getRegionInfo :: "world \<Rightarrow> string \<Rightarrow> (error + Region) \<times> world" where
  "getRegionInfo w regionName =
     (let clusterNames = GetClustersByRegion w regionName in
      case ParallelMap (regionDatacenterItem regionName) w clusterNames of
        (datacenters, w') \<Rightarrow>
          (case countStatuses datacenters (0, 0, 0) of
             (activeCount, drainingCount, errorCount) \<Rightarrow>
               (let regionStatus =
                      (if errorCount > 0 then DatacenterStatusError
                       else if drainingCount = length clusterNames then DatacenterStatusDraining
                       else if activeCount > 0 \<and> drainingCount > 0 then ''partial''
                       else DatacenterStatusActive)
                in (Inr \<lparr>rg_Name = regionName, Datacenters = datacenters,
                          rg_Status = regionStatus,
                          rg_JobsTotal = sum_list (map dc_JobsTotal datacenters),
                          rg_JobsRunning = sum_list (map dc_JobsRunning datacenters),
                          rg_JobsStopped = sum_list (map dc_JobsStopped datacenters)\<rparr>, w'))))"

section \<open>Coordination store client (etcd repository)\<close>

definition timeNow :: "world \<Rightarrow> int \<times> world" where
  "timeNow w = (clock w (clock_reads w), w\<lparr>clock_reads := Suc (clock_reads w)\<rparr>)"

definition WriteActiveDatacenter :: "world \<Rightarrow> ActiveDatacenter \<Rightarrow> error option \<times> world" where
  "WriteActiveDatacenter w info =
     (if etcd_write_fails w then
        (Some EtcdWriteFailed, w\<lparr>etcd_writes := etcd_writes w @ [info]\<rparr>)
      else
        (None, w\<lparr>etcd_record := Some info, etcd_writes := etcd_writes w @ [info]\<rparr>))"

definition ReadActiveDatacenter :: "world \<Rightarrow> error + ActiveDatacenter" where
  "ReadActiveDatacenter w =
     (if etcd_read_fails w then Inl EtcdReadFailed
      else case etcd_record w of
             None \<Rightarrow> Inl EtcdNotFound
           | Some info \<Rightarrow> Inr info)"

text \<open>\<^verbatim>\<open>IsStale\<close> and \<^verbatim>\<open>HeartbeatAge\<close> each read the clock (\<^verbatim>\<open>time.Since\<close>).\<close>

definition IsStale :: "world \<Rightarrow> ActiveDatacenter \<Rightarrow> int \<Rightarrow> bool \<times> world" where
  "IsStale w a threshold =
     (case timeNow w of (now, w') \<Rightarrow> (now - LastHeartbeat a > threshold, w'))"

definition HeartbeatAge :: "world \<Rightarrow> ActiveDatacenter \<Rightarrow> int \<times> world" where
  "HeartbeatAge w a =
     (case timeNow w of (now, w') \<Rightarrow> (now - LastHeartbeat a, w'))"

section \<open>Datacenter service: activation\<close>

record clusterNodesInfo =
  ci_clusterName :: string
  ci_nodes :: "Node list"
  ci_region :: string
  ci_err :: "error option"

record nodeToChange =
  ntc_node :: Node
  nodeIsEligible :: bool
  alreadyCorrect :: bool

record nodeResult =
  nr_nodeID :: string
  nr_success :: bool

text \<open>The function mapped over the cluster names by \<^verbatim>\<open>ActivateDatacenter\<close>.\<close>

definition fetchClusterNodes ::
  "string \<Rightarrow> string \<Rightarrow> world \<Rightarrow> string \<Rightarrow> clusterNodesInfo \<times> world" where
  "fetchClusterNodes targetDC targetRegion w clusterName =
     (case GetClusterRegion w clusterName of
        Inl err \<Rightarrow>
          (\<lparr>ci_clusterName = clusterName, ci_nodes = [], ci_region = [],
            ci_err = Some err\<rparr>, w)
      | Inr clusterRegion \<Rightarrow>
          if clusterRegion = targetRegion \<and> clusterName \<noteq> targetDC then
            (\<lparr>ci_clusterName = clusterName, ci_nodes = [], ci_region = clusterRegion,
              ci_err = None\<rparr>, w)
          else
            (case GetNodes w clusterName of
               (Inl err, w') \<Rightarrow>
                 (\<lparr>ci_clusterName = clusterName, ci_nodes = [], ci_region = [],
                   ci_err = Some err\<rparr>, w')
             | (Inr nodes, w') \<Rightarrow>
                 (\<lparr>ci_clusterName = clusterName, ci_nodes = nodes,
                   ci_region = clusterRegion, ci_err = None\<rparr>, w')))"


definition mkNodeToChange :: "bool \<Rightarrow> Node \<Rightarrow> nodeToChange" where
  "mkNodeToChange shouldDrain node =
     (let shouldBeEligible = \<not> shouldDrain;
          eligible = (SchedulingEligibility node = ''eligible'')
      in \<lparr>ntc_node = node, nodeIsEligible = eligible,
           alreadyCorrect = ((Drain node = shouldDrain) \<and> (eligible = shouldBeEligible))\<rparr>)"

text \<open>The function mapped over the nodes of one cluster; a result is the pair of
  \<^verbatim>\<open>Result.Value\<close> and \<^verbatim>\<open>Result.Error\<close>.\<close>

definition applyNodeChange ::
  "string \<Rightarrow> bool \<Rightarrow> world \<Rightarrow> nodeToChange \<Rightarrow> (nodeResult \<times> error option) \<times> world" where
  "applyNodeChange clusterName shouldDrain w ntc =
     (if alreadyCorrect ntc then ((\<lparr>nr_nodeID = [], nr_success = True\<rparr>, None), w)
      else
        (case SetNodeDrain w clusterName (ID (ntc_node ntc)) shouldDrain of
           (Some err, w') \<Rightarrow>
             ((\<lparr>nr_nodeID = ID (ntc_node ntc), nr_success = False\<rparr>, Some err), w')
         | (None, w') \<Rightarrow>
             ((\<lparr>nr_nodeID = ID (ntc_node ntc), nr_success = True\<rparr>, None), w')))"

fun collectNodeResults ::
  "string \<Rightarrow> bool \<Rightarrow> (nodeResult \<times> error option) list \<Rightarrow> ActivationResult \<Rightarrow> ActivationResult"
  where
  "collectNodeResults clusterName shouldDrain [] result = result"
| "collectNodeResults clusterName shouldDrain ((v, Some err) # nrs) result =
     collectNodeResults clusterName shouldDrain nrs
       (result\<lparr>Errors := Errors result @ [NodeWriteMsg clusterName (nr_nodeID v) err]\<rparr>)"
| "collectNodeResults clusterName shouldDrain ((v, None) # nrs) result =
     collectNodeResults clusterName shouldDrain nrs
       (if nr_success v \<and> nr_nodeID v \<noteq> [] then
          (if shouldDrain then result\<lparr>DrainedNodes := DrainedNodes result + 1\<rparr>
           else result\<lparr>UnDrainedNodes := UnDrainedNodes result + 1\<rparr>)
        else result)"

text \<open>The part of the loop body over the clusters that both activations share: decide per
  node, write, collect, invalidate the cluster's cache key.\<close>

definition applyToCluster ::
  "string \<Rightarrow> Node list \<Rightarrow> bool \<Rightarrow> ActivationResult \<times> world \<Rightarrow> ActivationResult \<times> world" where
  "applyToCluster clusterName nodes shouldDrain rw =
     (case rw of (result, w) \<Rightarrow>
        (case ParallelMap (applyNodeChange clusterName shouldDrain) w
                (map (mkNodeToChange shouldDrain) nodes) of
           (nodeResults, w') \<Rightarrow>
             (collectNodeResults clusterName shouldDrain nodeResults result,
              w'\<lparr>cache := (cache w')(cacheKey clusterName := None)\<rparr>)))"

fun processDatacenterClusters ::
  "string \<Rightarrow> clusterNodesInfo list \<Rightarrow> ActivationResult \<times> world \<Rightarrow> ActivationResult \<times> world"
  where
  "processDatacenterClusters targetDC [] rw = rw"
| "processDatacenterClusters targetDC (clusterInfo # rest) (result, w) =
     (case ci_err clusterInfo of
        Some err \<Rightarrow>
          processDatacenterClusters targetDC rest
            (result\<lparr>Errors := Errors result @
                       [ClusterFetchMsg (ci_clusterName clusterInfo) err]\<rparr>, w)
      | None \<Rightarrow>
          if ci_nodes clusterInfo = [] then processDatacenterClusters targetDC rest (result, w)
          else processDatacenterClusters targetDC rest
                 (applyToCluster (ci_clusterName clusterInfo) (ci_nodes clusterInfo)
                    (ci_clusterName clusterInfo \<noteq> targetDC) (result, w)))"


definition notifyHealthChecker :: "string \<Rightarrow> world \<Rightarrow> world" where
  "notifyHealthChecker region w =
     (if hasHealthChecker w then w\<lparr>hc_active_region := Some region\<rparr> else w)"

text \<open>\<^verbatim>\<open>ActivateDatacenter\<close> up to the end of its loop over the clusters.\<close>

definition activateDatacenterNodes ::
  "world \<Rightarrow> string \<Rightarrow> string \<Rightarrow> ActivationResult \<times> world" where
  "activateDatacenterNodes w targetDC targetRegion =
     (case ParallelMap (fetchClusterNodes targetDC targetRegion) w (GetClusterNames w) of
        (clusterNodesResults, w') \<Rightarrow>
          processDatacenterClusters targetDC clusterNodesResults
            (\<lparr>Activated = targetDC, DrainedNodes = 0, UnDrainedNodes = 0, Errors = []\<rparr>, w'))"

text \<open>The rest of \<^verbatim>\<open>ActivateDatacenter\<close>: job evaluations, the write of the
  active-datacenter record, the health checker.\<close>

definition finishDatacenterActivation ::
  "string \<Rightarrow> string \<Rightarrow> ActivationResult \<times> world \<Rightarrow> ActivationResult \<times> world" where
  "finishDatacenterActivation targetDC targetRegion rw =
     (case rw of (result, w) \<Rightarrow>
        (let result' =
               (if UnDrainedNodes result > 0 then
                  (case TriggerJobEvaluations w targetDC of
                     Some err \<Rightarrow> result\<lparr>Errors := Errors result @ [EvalMsg targetDC err]\<rparr>
                   | None \<Rightarrow> result)
                else result)
         in case timeNow w of (activatedAt, w1) \<Rightarrow>
            case timeNow w1 of (lastHeartbeat, w2) \<Rightarrow>
            (case WriteActiveDatacenter w2
                    \<lparr>ad_Datacenter = targetDC, ActivatedAt = activatedAt,
                     ActivatedBy = ''api'', LastHeartbeat = lastHeartbeat\<rparr> of
               (Some err, w3) \<Rightarrow>
                 (result'\<lparr>Errors := Errors result' @ [EtcdMsg err]\<rparr>,
                  notifyHealthChecker targetRegion w3)
             | (None, w3) \<Rightarrow>
                 (result', notifyHealthChecker targetRegion (w3\<lparr>amDrained := False\<rparr>)))))"

definition ActivateDatacenter :: "world \<Rightarrow> string \<Rightarrow> (error + ActivationResult) \<times> world" where
  "ActivateDatacenter w targetDC =
     (case GetClusterRegion w targetDC of
        Inl err \<Rightarrow> (Inl (TargetNotFound targetDC err), w)
      | Inr targetRegion \<Rightarrow>
          (case finishDatacenterActivation targetDC targetRegion
                  (activateDatacenterNodes w targetDC targetRegion) of
             (result, w') \<Rightarrow> (Inr result, w')))"




section \<open>Datacenter service: startup reconciliation and heartbeat\<close>

text \<open>The loop of \<^verbatim>\<open>drainMyNodes\<close>: it returns at the first failed write.\<close>

fun drainNodesLoop :: "world \<Rightarrow> Node list \<Rightarrow> error option \<times> world" where
  "drainNodesLoop w [] = (None, w)"
| "drainNodesLoop w (node # nodes) =
     (if Drain node \<or> SchedulingEligibility node \<noteq> ''eligible'' then drainNodesLoop w nodes
      else
        (case SetNodeDrain w (myDatacenter w) (ID node) True of
           (Some err, w') \<Rightarrow> (Some (FailedToDrainNode (ID node) err), w')
         | (None, w') \<Rightarrow> drainNodesLoop w' nodes))"

definition drainMyNodes :: "world \<Rightarrow> error option \<times> world" where
  "drainMyNodes w =
     (case GetNodes w (myDatacenter w) of
        (Inl err, w') \<Rightarrow> (Some (FailedToGetNodes err), w')
      | (Inr nodes, w') \<Rightarrow>
          (case drainNodesLoop w' nodes of
             (Some err, w'') \<Rightarrow> (Some err, w'')
           | (None, w'') \<Rightarrow>
               (None, w''\<lparr>cache := (cache w'')(myDatacenter w'' @ '':nodes'' := None)\<rparr>)))"

text \<open>The pattern that \<^verbatim>\<open>PerformStartupReconciliation\<close> repeats in each of its draining
  branches: drain; on failure return the wrapped error; otherwise set \<open>amDrained\<close> and
  return \<open>ret\<close>.\<close>

definition drainAndMark :: "world \<Rightarrow> error option \<Rightarrow> error option \<times> world" where
  "drainAndMark w ret =
     (case drainMyNodes w of
        (Some err, w') \<Rightarrow> (Some (FailedToDrainNodes err), w')
      | (None, w') \<Rightarrow> (ret, w'\<lparr>amDrained := True\<rparr>))"

definition PerformStartupReconciliation :: "world \<Rightarrow> error option \<times> world" where
  "PerformStartupReconciliation w =
     (case ReadActiveDatacenter w of
        Inl err \<Rightarrow> drainAndMark w None
      | Inr activeInfo \<Rightarrow>
          (case HeartbeatAge w activeInfo of (loggedAge, w0) \<Rightarrow>
             if ad_Datacenter activeInfo \<noteq> myDatacenter w0 then drainAndMark w0 None
             else
               (case IsStale w0 activeInfo (StaleThreshold w0) of
                  (True, w1) \<Rightarrow>
                    (case HeartbeatAge w1 activeInfo of (age, w2) \<Rightarrow> drainAndMark w2 None)
                | (False, w1) \<Rightarrow>
                    (case HeartbeatAge w1 activeInfo of (age, w2) \<Rightarrow>
                       if age < StaleThreshold w2 then
                         drainAndMark w2 (Some FreshHeartbeatFound)
                       else (None, w2\<lparr>amDrained := False\<rparr>)))))"

text \<open>
  What the outside world looks like when a tick of the heartbeat ticker fires: the value
  under the active-datacenter key (peers write it too) and which calls fail.
\<close>

record tickEnv =
  te_etcd_record :: "ActiveDatacenter option"
  te_etcd_read_fails :: bool
  te_etcd_write_fails :: bool
  te_list_fails :: "string \<Rightarrow> bool"
  te_drain_fails :: "string \<Rightarrow> string \<Rightarrow> bool"

definition installEnv :: "tickEnv \<Rightarrow> world \<Rightarrow> world" where
  "installEnv env w =
     w\<lparr>etcd_record := te_etcd_record env,
       etcd_read_fails := te_etcd_read_fails env,
       etcd_write_fails := te_etcd_write_fails env,
       list_fails := te_list_fails env,
       drain_fails := te_drain_fails env\<rparr>"

text \<open>The body of the \<^verbatim>\<open>case <-ticker.C\<close> branch of \<^verbatim>\<open>heartbeatLoop\<close>, on the local
  variable \<open>consecutiveFailures\<close> and the service state.\<close>

definition heartbeatTick :: "int \<Rightarrow> world \<Rightarrow> int \<times> world" where
  "heartbeatTick consecutiveFailures w =
     (case ReadActiveDatacenter w of
        Inl err \<Rightarrow> (consecutiveFailures + 1, w)
      | Inr activeInfo \<Rightarrow>
          if ad_Datacenter activeInfo \<noteq> myDatacenter w then
            (if \<not> amDrained w then
               (case drainMyNodes w of
                  (Some err, w') \<Rightarrow> (0, w')
                | (None, w') \<Rightarrow> (0, w'\<lparr>amDrained := True\<rparr>))
             else (0, w))
          else
            (case HeartbeatAge w activeInfo of (heartbeatAge, w1) \<Rightarrow>
               if heartbeatAge < StaleThreshold w1 \<and> amDrained w1 then (consecutiveFailures, w1)
               else
                 (case timeNow w1 of (now, w2) \<Rightarrow>
                    (case WriteActiveDatacenter w2 (activeInfo\<lparr>LastHeartbeat := now\<rparr>) of
                       (Some err, w3) \<Rightarrow>
                         if consecutiveFailures + 1 \<ge> MaxFailures w3 \<and> \<not> amDrained w3 then
                           (case drainMyNodes w3 of
                              (Some err', w4) \<Rightarrow> (consecutiveFailures + 1, w4)
                            | (None, w4) \<Rightarrow> (consecutiveFailures + 1, w4\<lparr>amDrained := True\<rparr>))
                         else (consecutiveFailures + 1, w3)
                     | (None, w3) \<Rightarrow> (0, w3)))))"

text \<open>The loop, run for the ticks that fire before the stop signal; each tick comes with
  the environment it finds.\<close>

fun heartbeatTicks :: "tickEnv list \<Rightarrow> int \<times> world \<Rightarrow> int \<times> world" where
  "heartbeatTicks [] s = s"
| "heartbeatTicks (env # envs) (consecutiveFailures, w) =
     heartbeatTicks envs (heartbeatTick consecutiveFailures (installEnv env w))"

definition heartbeatLoop :: "world \<Rightarrow> tickEnv list \<Rightarrow> int \<times> world" where
  "heartbeatLoop w envs = heartbeatTicks envs (0, w)"

section \<open>Auxiliary definitions for the statements\<close>

text \<open>\<open>frame w w'\<close>: going from \<open>w\<close> to \<open>w'\<close> changed at most the Nomad nodes, the cache and
  the log of \<^verbatim>\<open>SetNodeDrain\<close> calls.\<close>

definition frame :: "world \<Rightarrow> world \<Rightarrow> bool" where
  "frame w w' \<longleftrightarrow>
     clusters w' = clusters w \<and> list_fails w' = list_fails w \<and>
     drain_fails w' = drain_fails w \<and> nomad_jobs w' = nomad_jobs w \<and>
     eval_fails w' = eval_fails w \<and> etcd_record w' = etcd_record w \<and>
     etcd_read_fails w' = etcd_read_fails w \<and> etcd_write_fails w' = etcd_write_fails w \<and>
     etcd_writes w' = etcd_writes w \<and> clock w' = clock w \<and> clock_reads w' = clock_reads w \<and>
     myDatacenter w' = myDatacenter w \<and> amDrained w' = amDrained w \<and>
     StaleThreshold w' = StaleThreshold w \<and> MaxFailures w' = MaxFailures w \<and>
     hasHealthChecker w' = hasHealthChecker w \<and> hc_active_region w' = hc_active_region w"

text \<open>\<open>cache_only w w'\<close>: going from \<open>w\<close> to \<open>w'\<close> changed at most the cache.\<close>

definition cache_only :: "world \<Rightarrow> world \<Rightarrow> bool" where
  "cache_only w w' \<longleftrightarrow>
     frame w w' \<and> nomad_nodes w' = nomad_nodes w \<and> drain_calls w' = drain_calls w"

text \<open>
  The status of a region view as the specification words it: \<open>error\<close> if any member is
  \<open>error\<close>; else \<open>draining\<close> if all are \<open>draining\<close>; else \<open>partial\<close> if both active and
  draining members exist; else \<open>active\<close>. The argument is the list of member statuses.
\<close>

definition regionStatusSpec :: "string list \<Rightarrow> string" where
  "regionStatusSpec ss =
     (if ''error'' \<in> set ss then ''error''
      else if (\<forall>s\<in>set ss. s = ''draining'') then ''draining''
      else if ''active'' \<in> set ss \<and> ''draining'' \<in> set ss then ''partial''
      else ''active'')"











text \<open>A small deployment used to instantiate the theorems: two datacenters in region
  \<open>us\<close>, one in \<open>eu\<close>, the local datacenter is \<open>dcA\<close>.\<close>

definition mkNode :: "string \<Rightarrow> bool \<Rightarrow> string \<Rightarrow> Node" where
  "mkNode i d e =
     \<lparr>ID = i, node_Name = i, Drain = d, SchedulingEligibility = e, node_Status = ''ready''\<rparr>"

definition exampleWorld :: world where
  "exampleWorld =
     \<lparr>clusters = [(''dcB'', ''us''), (''dcA'', ''us''), (''dcC'', ''eu'')],
      nomad_nodes = (\<lambda>c. if c = ''dcA'' then [mkNode ''a1'' False ''eligible'']
                         else if c = ''dcB'' then [mkNode ''b1'' False ''eligible'']
                         else if c = ''dcC'' then [mkNode ''c1'' True ''ineligible'']
                         else []),
      list_fails = (\<lambda>c. False),
      drain_fails = (\<lambda>c i. False),
      nomad_jobs = (\<lambda>c. Some []),
      eval_fails = (\<lambda>c. False),
      cache = (\<lambda>k. None),
      drain_calls = [],
      etcd_record = None,
      etcd_read_fails = False,
      etcd_write_fails = False,
      etcd_writes = [],
      clock = (\<lambda>n. int n),
      clock_reads = 0,
      myDatacenter = ''dcA'',
      amDrained = False,
      StaleThreshold = 120,
      MaxFailures = 3,
      hasHealthChecker = False,
      hc_active_region = None\<rparr>"

text \<open>The same deployment when listing the nodes of \<open>dcB\<close> fails.\<close>

definition exampleListFailure :: world where
  "exampleListFailure = exampleWorld\<lparr>list_fails := (\<lambda>c. c = ''dcB'')\<rparr>"

text \<open>Variants: the coordination store holds a record naming \<open>dcA\<close> with a heartbeat
  written at time 0; the Nomad cluster of \<open>dcA\<close> cannot be listed; \<open>dcA\<close> has a node that is
  neither draining nor eligible.\<close>

definition examplePeerRecord :: ActiveDatacenter where
  "examplePeerRecord =
     \<lparr>ad_Datacenter = ''dcA'', ActivatedAt = 0, ActivatedBy = ''api'', LastHeartbeat = 0\<rparr>"

definition exampleFreshPeer :: world where
  "exampleFreshPeer = exampleWorld\<lparr>etcd_record := Some examplePeerRecord\<rparr>"

definition exampleUnreachable :: world where
  "exampleUnreachable = exampleWorld\<lparr>list_fails := (\<lambda>c. c = ''dcA'')\<rparr>"

definition exampleFreshPeerUnreachable :: world where
  "exampleFreshPeerUnreachable = exampleUnreachable\<lparr>etcd_record := Some examplePeerRecord\<rparr>"

definition exampleIneligible :: world where
  "exampleIneligible =
     exampleWorld\<lparr>nomad_nodes := (\<lambda>c. if c = ''dcA''
        then [mkNode ''a1'' False ''eligible'', mkNode ''a2'' False ''ineligible'']
        else [])\<rparr>"

text \<open>Tick environments: the read of the record fails; the read returns the record of
  \<open>dcA\<close> and the write fails; the same while the Nomad clusters cannot be listed.\<close>

definition exampleReadFails :: tickEnv where
  "exampleReadFails =
     \<lparr>te_etcd_record = None, te_etcd_read_fails = True, te_etcd_write_fails = True,
      te_list_fails = (\<lambda>c. False), te_drain_fails = (\<lambda>c i. False)\<rparr>"

definition exampleWriteFails :: tickEnv where
  "exampleWriteFails =
     \<lparr>te_etcd_record = Some examplePeerRecord, te_etcd_read_fails = False,
      te_etcd_write_fails = True,
      te_list_fails = (\<lambda>c. False), te_drain_fails = (\<lambda>c i. False)\<rparr>"

definition exampleWriteFailsUnreachable :: tickEnv where
  "exampleWriteFailsUnreachable =
     \<lparr>te_etcd_record = Some examplePeerRecord, te_etcd_read_fails = False,
      te_etcd_write_fails = True,
      te_list_fails = (\<lambda>c. True), te_drain_fails = (\<lambda>c i. False)\<rparr>"

section \<open>Basic facts about the executor and the frame\<close>

lemma frame_refl: "frame w w"
  by (simp add: frame_def)

lemma frame_trans: "frame w w1 \<Longrightarrow> frame w1 w2 \<Longrightarrow> frame w w2"
  by (simp add: frame_def)

lemma ParallelMap_rel:
  assumes "\<And>w. R w w" and "\<And>a b c. R a b \<Longrightarrow> R b c \<Longrightarrow> R a c"
    and "\<And>w x. R w (snd (fn w x))"
  shows "R w (snd (ParallelMap fn w xs))"
proof (induction xs arbitrary: w)
  case Nil
  then show ?case using assms(1) by simp
next
  case (Cons x xs)
  obtain r w1 where f: "fn w x = (r, w1)" by (cases "fn w x")
  obtain rs w2 where p: "ParallelMap fn w1 xs = (rs, w2)" by (cases "ParallelMap fn w1 xs")
  have "R w w1" using assms(3)[of w x] f by simp
  moreover have "R w1 w2" using Cons.IH[of w1] p by simp
  ultimately show ?case using f p assms(2) by simp
qed

lemma ParallelMap_length: "length (fst (ParallelMap fn w xs)) = length xs"
proof (induction xs arbitrary: w)
  case Nil
  then show ?case by simp
next
  case (Cons x xs)
  obtain r w1 where f: "fn w x = (r, w1)" by (cases "fn w x")
  obtain rs w2 where p: "ParallelMap fn w1 xs = (rs, w2)" by (cases "ParallelMap fn w1 xs")
  show ?case using f p Cons.IH[of w1] by simp
qed

lemma frame_SetNodeDrain: "frame w (snd (SetNodeDrain w c i d))"
  by (simp add: SetNodeDrain_def frame_def split: option.splits)

lemma frame_GetNodes: "frame w (snd (GetNodes w c))"
  by (simp add: GetNodes_def frame_def split: option.splits sum.splits)

lemma frame_applyNodeChange: "frame w (snd (applyNodeChange c d w ntc))"
  using frame_SetNodeDrain[of w c "ID (ntc_node ntc)" d]
  by (auto simp: applyNodeChange_def frame_refl split: prod.splits option.splits)

lemma frame_applyToCluster: "frame w (snd (applyToCluster c ns d (r, w)))"
proof -
  have "frame w (snd (ParallelMap (applyNodeChange c d) w (map (mkNodeToChange d) ns)))"
    by (rule ParallelMap_rel[where R = frame])
      (auto intro: frame_refl frame_trans frame_applyNodeChange)
  then show ?thesis
    by (auto simp: applyToCluster_def frame_def split: prod.splits)
qed


lemma frame_fetch: "frame w (snd (fetchClusterNodes t r w c))"
  using frame_GetNodes[of w c]
  by (auto simp: fetchClusterNodes_def frame_refl split: prod.splits sum.splits)


lemma frame_processDatacenter: "frame w (snd (processDatacenterClusters t infos (res, w)))"
proof (induction infos arbitrary: res w)
  case Nil
  then show ?case by (simp add: frame_refl)
next
  case (Cons i infos)
  show ?case
  proof (cases "ci_err i")
    case None
    obtain res1 w1 where a:
      "applyToCluster (ci_clusterName i) (ci_nodes i) (ci_clusterName i \<noteq> t) (res, w) = (res1, w1)"
      by (cases "applyToCluster (ci_clusterName i) (ci_nodes i) (ci_clusterName i \<noteq> t) (res, w)")
    have "frame w w1"
      using frame_applyToCluster[of w "ci_clusterName i" "ci_nodes i" "ci_clusterName i \<noteq> t" res] a
      by simp
    then show ?thesis
      using None a Cons.IH[where res=res1 and w=w1] Cons.IH[where res=res and w=w]
      by (auto intro: frame_trans)
  next
    case (Some e)
    then show ?thesis using Cons.IH by simp
  qed
qed

lemma cache_only_refl: "cache_only w w"
  by (simp add: cache_only_def frame_refl)

lemma cache_only_trans: "cache_only a b \<Longrightarrow> cache_only b c \<Longrightarrow> cache_only a c"
  by (auto simp: cache_only_def intro: frame_trans)

lemma cacheKey_inj [simp]: "cacheKey a = cacheKey b \<longleftrightarrow> a = b"
  by (simp add: cacheKey_def)

lemma ParallelMap_independent:
  assumes step: "\<And>w c. cache_only w (snd (fn w c))"
    and keep: "\<And>w c k. k \<noteq> cacheKey c \<Longrightarrow> cache (snd (fn w c)) k = cache w k"
    and item: "\<And>w w' c. cache_only w w' \<Longrightarrow> cache w' (cacheKey c) = cache w (cacheKey c)
                 \<Longrightarrow> fst (fn w' c) = fst (fn w c)"
    and "distinct names" and "cache_only w0 w"
    and "\<forall>c\<in>set names. cache w (cacheKey c) = cache w0 (cacheKey c)"
  shows "fst (ParallelMap fn w names) = map (\<lambda>c. fst (fn w0 c)) names"
  using assms(4-6)
proof (induction names arbitrary: w)
  case Nil
  then show ?case by simp
next
  case (Cons c cs)
  obtain r w1 where f: "fn w c = (r, w1)" by (cases "fn w c")
  obtain rs w2 where p: "ParallelMap fn w1 cs = (rs, w2)" by (cases "ParallelMap fn w1 cs")
  have r: "r = fst (fn w0 c)"
    using item[of w0 w c] Cons.prems f by simp
  have co: "cache_only w0 w1"
    using step[of w c] f Cons.prems(2) cache_only_trans by fastforce
  have k: "\<forall>c'\<in>set cs. cache w1 (cacheKey c') = cache w0 (cacheKey c')"
  proof
    fix c' assume c': "c' \<in> set cs"
    then have "c' \<noteq> c" using Cons.prems(1) by auto
    then have "cache w1 (cacheKey c') = cache w (cacheKey c')"
      using keep[of "cacheKey c'" c w] f by simp
    then show "cache w1 (cacheKey c') = cache w0 (cacheKey c')"
      using Cons.prems(3) c' by simp
  qed
  have "rs = map (\<lambda>c. fst (fn w0 c)) cs"
    using Cons.IH[of w1] Cons.prems(1) co k p by simp
  then show ?case using f p r by simp
qed

lemma cache_only_GetNodes: "cache_only w (snd (GetNodes w c))"
  by (simp add: GetNodes_def cache_only_def frame_def split: option.splits sum.splits)

lemma keep_GetNodes: "k \<noteq> cacheKey c \<Longrightarrow> cache (snd (GetNodes w c)) k = cache w k"
  by (simp add: GetNodes_def split: option.splits sum.splits)

lemma item_GetNodes:
  "cache_only w w' \<Longrightarrow> cache w' (cacheKey c) = cache w (cacheKey c)
     \<Longrightarrow> fst (GetNodes w' c) = fst (GetNodes w c)"
  by (simp add: GetNodes_def ListNodes_def cache_only_def frame_def split: option.splits sum.splits)

lemma ParallelMap_pointwise:
  assumes "\<And>w x. Q x (fst (fn w x))"
  shows "list_all2 Q xs (fst (ParallelMap fn w xs))"
proof (induction xs arbitrary: w)
  case Nil
  then show ?case by simp
next
  case (Cons x xs)
  obtain r w1 where f: "fn w x = (r, w1)" by (cases "fn w x")
  obtain rs w2 where p: "ParallelMap fn w1 xs = (rs, w2)" by (cases "ParallelMap fn w1 xs")
  have "Q x r" using assms[of x w] f by simp
  moreover have "list_all2 Q xs rs" using Cons.IH[of w1] p by simp
  ultimately show ?case using f p by simp
qed

lemma filter_len_pos: "0 < length (filter P xs) \<longleftrightarrow> (\<exists>x\<in>set xs. P x)"
  by (induction xs) auto

lemma filter_len_all: "length (filter P xs) = length xs \<longleftrightarrow> (\<forall>x\<in>set xs. P x)"
proof (induction xs)
  case Nil
  then show ?case by simp
next
  case (Cons x xs)
  have "length (filter P xs) \<noteq> Suc (length xs)"
    using length_filter_le[of P xs] by linarith
  then show ?case using Cons by auto
qed

lemma getDatacenterInfo_world: "snd (getDatacenterInfo w c) = snd (GetNodes w c)"
  by (simp add: getDatacenterInfo_def Let_def split: prod.splits sum.splits)

lemma item_getDatacenterInfo:
  assumes "cache_only w w'" "cache w' (cacheKey c) = cache w (cacheKey c)"
  shows "fst (getDatacenterInfo w' c) = fst (getDatacenterInfo w c)"
proof -
  obtain g1 v1 where a: "GetNodes w c = (g1, v1)" by (cases "GetNodes w c")
  obtain g2 v2 where b: "GetNodes w' c = (g2, v2)" by (cases "GetNodes w' c")
  have g: "g2 = g1" using item_GetNodes[OF assms] a b by simp
  have c1: "cache_only w v1" using cache_only_GetNodes[of w c] a by simp
  have c2: "cache_only w' v2" using cache_only_GetNodes[of w' c] b by simp
  have e1: "GetClusterRegion v2 c = GetClusterRegion v1 c" "ListJobs v2 c = ListJobs v1 c"
    using c1 c2 assms(1)
    by (simp_all add: cache_only_def frame_def GetClusterRegion_def ListJobs_def
          split: option.splits)
  show ?thesis
    using a b g e1
    by (auto simp: getDatacenterInfo_def Let_def split: sum.splits)
qed

lemma getDatacenterInfo_isl:
  "isl (fst (getDatacenterInfo w c)) = isl (fst (GetNodes w c))"
  by (simp add: getDatacenterInfo_def Let_def split: prod.splits sum.splits)

lemma getDatacenterInfo_Inr:
  "fst (getDatacenterInfo w c) = Inr dc \<Longrightarrow>
     dc_Name dc = c \<and> (dc_Status dc = DatacenterStatusActive \<or> dc_Status dc = DatacenterStatusDraining)"
  by (auto simp: getDatacenterInfo_def Let_def split: prod.splits sum.splits if_splits)

section \<open>Draining the local datacenter\<close>

lemma updateDrain_simps [simp]:
  "ID (updateDrain d n) = ID n" "Drain (updateDrain d n) = d"
  "SchedulingEligibility (updateDrain d n) = (if d then ''ineligible'' else ''eligible'')"
  "updateDrain d (updateDrain d n) = updateDrain d n"
  by (simp_all add: updateDrain_def)

lemma not_ready_updateDrain [simp]: "\<not> IsReady (updateDrain True n)"
  by (simp add: IsReady_def)













section \<open>Sorted name lists and the datacenter recorded by a region activation\<close>








section \<open>Listing the datacenters\<close>

lemma listDatacenterItem_world: "snd (listDatacenterItem w c) = snd (GetNodes w c)"
  using getDatacenterInfo_world[of w c]
  by (auto simp: listDatacenterItem_def split: prod.splits sum.splits)

lemma item_listDatacenterItem:
  assumes "cache_only w w'" "cache w' (cacheKey c) = cache w (cacheKey c)"
  shows "fst (listDatacenterItem w' c) = fst (listDatacenterItem w c)"
  using item_getDatacenterInfo[OF assms]
  by (auto simp: listDatacenterItem_def split: prod.splits sum.splits)

lemma listDatacenterItem_entry:
  "dc_Name (fst (listDatacenterItem w c)) = c \<and>
   (dc_Status (fst (listDatacenterItem w c)) = DatacenterStatusError
      \<longleftrightarrow> isl (fst (GetNodes w c)))"
proof (cases "fst (getDatacenterInfo w c)")
  case (Inl e)
  then show ?thesis
    using getDatacenterInfo_isl[of w c]
    by (auto simp: listDatacenterItem_def split: prod.splits sum.splits)
next
  case (Inr dc)
  then show ?thesis
    using getDatacenterInfo_isl[of w c] getDatacenterInfo_Inr[OF Inr]
    by (auto simp: listDatacenterItem_def DatacenterStatusError_def DatacenterStatusActive_def
          DatacenterStatusDraining_def split: prod.splits sum.splits)
qed

lemma ListDatacenters_entries:
  "fst (ListDatacenters w) =
     Inr (map (\<lambda>c. fst (listDatacenterItem w c)) (GetClusterNames w))"
proof -
  have "fst (ParallelMap listDatacenterItem w (GetClusterNames w)) =
          map (\<lambda>c. fst (listDatacenterItem w c)) (GetClusterNames w)"
  proof (rule ParallelMap_independent)
    show "distinct (GetClusterNames w)" by (simp add: GetClusterNames_def)
    show "cache_only w w" by (rule cache_only_refl)
    show "\<forall>c\<in>set (GetClusterNames w). cache w (cacheKey c) = cache w (cacheKey c)" by simp
    show "\<And>w c. cache_only w (snd (listDatacenterItem w c))"
      by (simp add: listDatacenterItem_world cache_only_GetNodes)
    show "\<And>w c k. k \<noteq> cacheKey c \<Longrightarrow> cache (snd (listDatacenterItem w c)) k = cache w k"
      by (simp add: listDatacenterItem_world keep_GetNodes)
    show "\<And>w w' c. cache_only w w' \<Longrightarrow> cache w' (cacheKey c) = cache w (cacheKey c)
            \<Longrightarrow> fst (listDatacenterItem w' c) = fst (listDatacenterItem w c)"
      by (rule item_listDatacenterItem)
  qed
  then show ?thesis
    by (auto simp: ListDatacenters_def split: prod.splits)
qed

text \<open>
  Claim C9. \<^verbatim>\<open>ListDatacenters\<close> never returns an error. Its result has exactly one entry
  per configured cluster name, in the order of \<^verbatim>\<open>GetClusterNames\<close>, and an entry has
  status \<open>error\<close> exactly when fetching the nodes of its cluster fails (the cache holds no
  entry for the cluster and the node listing fails).
\<close>

theorem ListDatacenters_never_fails:
  "\<exists>dcs. fst (ListDatacenters w) = Inr dcs \<and>
      map dc_Name dcs = GetClusterNames w \<and>
      distinct (map dc_Name dcs) \<and>
      set (map dc_Name dcs) = fst ` set (clusters w) \<and>
      (\<forall>d\<in>set dcs. dc_Status d = DatacenterStatusError
                      \<longleftrightarrow> isl (fst (GetNodes w (dc_Name d))))"
proof -
  define dcs where "dcs = map (\<lambda>c. fst (listDatacenterItem w c)) (GetClusterNames w)"
  have a: "fst (ListDatacenters w) = Inr dcs"
    by (simp add: ListDatacenters_entries dcs_def)
  have b: "map dc_Name dcs = GetClusterNames w"
    by (simp add: dcs_def listDatacenterItem_entry comp_def)
  have c: "distinct (GetClusterNames w)" "set (GetClusterNames w) = fst ` set (clusters w)"
    by (simp_all add: GetClusterNames_def)
  have d: "\<forall>d\<in>set dcs. dc_Status d = DatacenterStatusError
                      \<longleftrightarrow> isl (fst (GetNodes w (dc_Name d)))"
    using listDatacenterItem_entry by (auto simp: dcs_def)
  have e: "distinct (map dc_Name dcs)" "set (map dc_Name dcs) = fst ` set (clusters w)"
    using b c by simp_all
  show ?thesis using a b d e by blast
qed

theorem ListDatacenters_never_fails_witness:
  "\<exists>dcs. fst (ListDatacenters exampleListFailure) = Inr dcs \<and>
      map dc_Name dcs = [''dcA'', ''dcB'', ''dcC''] \<and>
      (\<forall>d\<in>set dcs. dc_Status d = DatacenterStatusError \<longleftrightarrow> dc_Name d = ''dcB'')"
proof -
  have n: "GetClusterNames exampleListFailure = [''dcA'', ''dcB'', ''dcC'']"
    by (simp add: GetClusterNames_def exampleListFailure_def exampleWorld_def)
  have g: "\<And>c. c \<in> {''dcA'', ''dcB'', ''dcC''} \<Longrightarrow>
             isl (fst (GetNodes exampleListFailure c)) \<longleftrightarrow> c = ''dcB''"
    by (auto simp: GetNodes_def ListNodes_def exampleListFailure_def exampleWorld_def)
  obtain dcs where d: "fst (ListDatacenters exampleListFailure) = Inr dcs"
      "map dc_Name dcs = GetClusterNames exampleListFailure"
      "\<forall>d\<in>set dcs. dc_Status d = DatacenterStatusError
          \<longleftrightarrow> isl (fst (GetNodes exampleListFailure (dc_Name d)))"
    using ListDatacenters_never_fails[of exampleListFailure] by blast
  have "\<forall>d\<in>set dcs. dc_Name d \<in> {''dcA'', ''dcB'', ''dcC''}"
  proof
    fix d assume "d \<in> set dcs"
    then have "dc_Name d \<in> set (map dc_Name dcs)" by simp
    then show "dc_Name d \<in> {''dcA'', ''dcB'', ''dcC''}" using d(2) n by simp
  qed
  then have "\<forall>d\<in>set dcs. dc_Status d = DatacenterStatusError \<longleftrightarrow> dc_Name d = ''dcB''"
    using d(3) g by blast
  then show ?thesis using d(1,2) n by auto
qed

section \<open>The status of a region view\<close>

lemma regionDatacenterItem_entry:
  "dc_Name (fst (regionDatacenterItem r w c)) = c \<and>
   dc_Status (fst (regionDatacenterItem r w c)) \<in> {''active'', ''draining'', ''error''}"
proof (cases "fst (getDatacenterInfo w c)")
  case (Inl e)
  then show ?thesis
    by (auto simp: regionDatacenterItem_def DatacenterStatusError_def split: prod.splits sum.splits)
next
  case (Inr dc)
  then show ?thesis
    using getDatacenterInfo_Inr[OF Inr]
    by (auto simp: regionDatacenterItem_def DatacenterStatusActive_def
          DatacenterStatusDraining_def split: prod.splits sum.splits)
qed

lemma countStatuses_eq:
  "countStatuses dcs (a, d, e) =
     (a + length (filter (\<lambda>x. dc_Status x = ''active'') dcs),
      d + length (filter (\<lambda>x. dc_Status x = ''draining'') dcs),
      e + length (filter (\<lambda>x. dc_Status x = ''error'') dcs))"
  by (induction dcs arbitrary: a d e)
    (auto simp: DatacenterStatusActive_def DatacenterStatusDraining_def DatacenterStatusError_def)

lemma regionStatus_chain:
  assumes "\<forall>s\<in>set ss. s \<in> {''active'', ''draining'', ''error''}"
  shows
    "(regionStatusSpec ss = ''error'' \<longleftrightarrow> ''error'' \<in> set ss) \<and>
     (regionStatusSpec ss = ''draining'' \<longleftrightarrow> (\<forall>s\<in>set ss. s = ''draining'')) \<and>
     (regionStatusSpec ss = ''partial'' \<longleftrightarrow>
        ''error'' \<notin> set ss \<and> ''active'' \<in> set ss \<and> ''draining'' \<in> set ss) \<and>
     (regionStatusSpec ss = ''active'' \<longleftrightarrow> ss \<noteq> [] \<and> (\<forall>s\<in>set ss. s = ''active''))"
proof -
  have e: "regionStatusSpec ss = ''error'' \<longleftrightarrow> ''error'' \<in> set ss"
    by (auto simp: regionStatusSpec_def)
  have d: "regionStatusSpec ss = ''draining'' \<longleftrightarrow> (\<forall>s\<in>set ss. s = ''draining'')"
    by (auto simp: regionStatusSpec_def)
  have p: "regionStatusSpec ss = ''partial'' \<longleftrightarrow>
        ''error'' \<notin> set ss \<and> ''active'' \<in> set ss \<and> ''draining'' \<in> set ss"
    by (auto simp: regionStatusSpec_def)
  have a: "regionStatusSpec ss = ''active'' \<longleftrightarrow> ss \<noteq> [] \<and> (\<forall>s\<in>set ss. s = ''active'')"
  proof (cases "ss = []")
    case True
    then show ?thesis by (simp add: regionStatusSpec_def)
  next
    case False
    then obtain s0 where s0: "s0 \<in> set ss" by (cases ss) auto
    show ?thesis
    proof
      assume h: "regionStatusSpec ss = ''active''"
      then have ne: "''error'' \<notin> set ss" by (auto simp: regionStatusSpec_def split: if_splits)
      from h have nd: "\<not> (\<forall>s\<in>set ss. s = ''draining'')"
        by (auto simp: regionStatusSpec_def split: if_splits)
      from h ne nd have nb: "\<not> (''active'' \<in> set ss \<and> ''draining'' \<in> set ss)"
        by (auto simp: regionStatusSpec_def split: if_splits)
      from nd obtain s1 where s1: "s1 \<in> set ss" "s1 \<noteq> ''draining''" by blast
      then have "s1 = ''active''" using assms ne by auto
      then have "''draining'' \<notin> set ss" using nb s1 by auto
      then have "\<forall>s\<in>set ss. s = ''active''" using assms ne by auto
      then show "ss \<noteq> [] \<and> (\<forall>s\<in>set ss. s = ''active'')" using False by simp
    next
      assume h: "ss \<noteq> [] \<and> (\<forall>s\<in>set ss. s = ''active'')"
      then have "s0 = ''active''" using s0 by simp
      then show "regionStatusSpec ss = ''active''"
        using h s0 by (auto simp: regionStatusSpec_def)
    qed
  qed
  show ?thesis using e d p a by blast
qed

lemma getRegionInfo_result:
  "\<exists>region w'. getRegionInfo w regionName = (Inr region, w') \<and>
     list_all2 (\<lambda>c dc. dc_Name dc = c \<and> dc_Status dc \<in> {''active'', ''draining'', ''error''})
       (GetClustersByRegion w regionName) (Datacenters region) \<and>
     rg_Status region = regionStatusSpec (map dc_Status (Datacenters region))"
proof -
  define names where "names = GetClustersByRegion w regionName"
  obtain dcs w1 where p: "ParallelMap (regionDatacenterItem regionName) w names = (dcs, w1)"
    by (cases "ParallelMap (regionDatacenterItem regionName) w names")
  have la: "list_all2 (\<lambda>c dc. dc_Name dc = c \<and> dc_Status dc \<in> {''active'', ''draining'', ''error''})
       names dcs"
    using ParallelMap_pointwise[where fn = "regionDatacenterItem regionName" and w = w and xs = names
        and Q = "\<lambda>c dc. dc_Name dc = c \<and> dc_Status dc \<in> {''active'', ''draining'', ''error''}"]
      regionDatacenterItem_entry p by simp
  have len: "length dcs = length names" using la by (simp add: list_all2_lengthD)
  define na where "na = length (filter (\<lambda>x. dc_Status x = ''active'') dcs)"
  define nd where "nd = length (filter (\<lambda>x. dc_Status x = ''draining'') dcs)"
  define ne where "ne = length (filter (\<lambda>x. dc_Status x = ''error'') dcs)"
  have cs: "countStatuses dcs (0, 0, 0) = (na, nd, ne)"
    by (simp add: countStatuses_eq na_def nd_def ne_def)
  have e1: "0 < ne \<longleftrightarrow> ''error'' \<in> set (map dc_Status dcs)"
    unfolding ne_def filter_len_pos by force
  have a1: "0 < na \<longleftrightarrow> ''active'' \<in> set (map dc_Status dcs)"
    unfolding na_def filter_len_pos by force
  have d1: "0 < nd \<longleftrightarrow> ''draining'' \<in> set (map dc_Status dcs)"
    unfolding nd_def filter_len_pos by force
  have d2: "nd = length names \<longleftrightarrow> (\<forall>s\<in>set (map dc_Status dcs). s = ''draining'')"
    unfolding nd_def len[symmetric] filter_len_all by force
  define status where "status = (if ne > 0 then DatacenterStatusError
                       else if nd = length names then DatacenterStatusDraining
                       else if na > 0 \<and> nd > 0 then ''partial''
                       else DatacenterStatusActive)"
  have s: "status = regionStatusSpec (map dc_Status dcs)"
    unfolding status_def regionStatusSpec_def using e1 a1 d1 d2
    by (simp add: DatacenterStatusError_def DatacenterStatusDraining_def DatacenterStatusActive_def)
  define region where "region = \<lparr>rg_Name = regionName, Datacenters = dcs, rg_Status = status,
            rg_JobsTotal = sum_list (map dc_JobsTotal dcs),
            rg_JobsRunning = sum_list (map dc_JobsRunning dcs),
            rg_JobsStopped = sum_list (map dc_JobsStopped dcs)\<rparr>"
  have g: "getRegionInfo w regionName = (Inr region, w1)"
    using p cs by (simp add: getRegionInfo_def Let_def names_def status_def region_def)
  have r1: "Datacenters region = dcs" "rg_Status region = status"
    by (simp_all add: region_def)
  have g2: "list_all2 (\<lambda>c dc. dc_Name dc = c \<and> dc_Status dc \<in> {''active'', ''draining'', ''error''})
       (GetClustersByRegion w regionName) (Datacenters region)"
    using la unfolding names_def r1 by simp
  have g3: "rg_Status region = regionStatusSpec (map dc_Status (Datacenters region))"
    using s unfolding r1 by simp
  show ?thesis using g g2 g3 by blast
qed

text \<open>
  Claim C7. \<^verbatim>\<open>getRegionInfo\<close> always returns a region view; its members are the clusters
  of the region in the order of \<^verbatim>\<open>GetClustersByRegion\<close>; and its status is the one the
  specification gives, with \<open>error\<close> taking precedence, then \<open>draining\<close>, then \<open>partial\<close>:
  the status is \<open>error\<close> iff some member is \<open>error\<close>; \<open>draining\<close> iff all members are
  \<open>draining\<close>; \<open>partial\<close> iff no member is \<open>error\<close> and both an \<open>active\<close> and a \<open>draining\<close>
  member appear; \<open>active\<close> iff there is a member and all members are \<open>active\<close> (a region
  without members is \<open>draining\<close>, by the precedence).
\<close>

theorem getRegionInfo_status:
  "\<exists>region w'. getRegionInfo w regionName = (Inr region, w') \<and>
     map dc_Name (Datacenters region) = GetClustersByRegion w regionName \<and>
     rg_Status region = regionStatusSpec (map dc_Status (Datacenters region)) \<and>
     (rg_Status region = ''error'' \<longleftrightarrow> ''error'' \<in> set (map dc_Status (Datacenters region))) \<and>
     (rg_Status region = ''draining'' \<longleftrightarrow>
        (\<forall>s\<in>set (map dc_Status (Datacenters region)). s = ''draining'')) \<and>
     (rg_Status region = ''partial'' \<longleftrightarrow>
        ''error'' \<notin> set (map dc_Status (Datacenters region)) \<and>
        ''active'' \<in> set (map dc_Status (Datacenters region)) \<and>
        ''draining'' \<in> set (map dc_Status (Datacenters region))) \<and>
     (rg_Status region = ''active'' \<longleftrightarrow>
        Datacenters region \<noteq> [] \<and>
        (\<forall>s\<in>set (map dc_Status (Datacenters region)). s = ''active''))"
proof -
  obtain region w' where r: "getRegionInfo w regionName = (Inr region, w')"
     "list_all2 (\<lambda>c dc. dc_Name dc = c \<and> dc_Status dc \<in> {''active'', ''draining'', ''error''})
       (GetClustersByRegion w regionName) (Datacenters region)"
     "rg_Status region = regionStatusSpec (map dc_Status (Datacenters region))"
    using getRegionInfo_result[of w regionName] by blast
  have n: "map dc_Name (Datacenters region) = GetClustersByRegion w regionName"
    using r(2) by (induction rule: list_all2_induct) auto
  have st: "\<forall>s\<in>set (map dc_Status (Datacenters region)). s \<in> {''active'', ''draining'', ''error''}"
    using r(2) by (induction rule: list_all2_induct) auto
  have ne: "Datacenters region \<noteq> [] \<longleftrightarrow> map dc_Status (Datacenters region) \<noteq> []"
    by simp
  note ch = regionStatus_chain[OF st, folded r(3)]
  show ?thesis
    apply (rule exI[of _ region], rule exI[of _ w'])
    using r(1) n r(3) ch ne by blast
qed

lemma getRegionInfo_example: "map dc_Status (Datacenters (projr (fst (getRegionInfo exampleWorld ''us'')))) = [''active'', ''active'']"
  by (simp add: getRegionInfo_def GetClustersByRegion_def exampleWorld_def regionDatacenterItem_def
      getDatacenterInfo_def GetNodes_def ListNodes_def GetClusterRegion_def ListJobs_def mkNode_def
      cacheKey_def Let_def DatacenterStatusActive_def DatacenterStatusDraining_def DatacenterStatusError_def)

theorem getRegionInfo_status_witness:
  "\<exists>region w'. getRegionInfo exampleWorld ''us'' = (Inr region, w') \<and>
     map dc_Status (Datacenters region) = [''active'', ''active''] \<and>
     rg_Status region = ''active''"
proof -
  obtain region w' where r: "getRegionInfo exampleWorld ''us'' = (Inr region, w')"
    "rg_Status region = ''active'' \<longleftrightarrow>
        Datacenters region \<noteq> [] \<and>
        (\<forall>s\<in>set (map dc_Status (Datacenters region)). s = ''active'')"
    using getRegionInfo_status[of exampleWorld "''us''"] by blast
  have s: "map dc_Status (Datacenters region) = [''active'', ''active'']"
    using getRegionInfo_example r(1) by simp
  then have "Datacenters region \<noteq> []" by auto
  then show ?thesis using r s by auto
qed

section \<open>Startup reconciliation\<close>





lemmas example_defs = exampleWorld_def exampleFreshPeer_def exampleUnreachable_def
  exampleFreshPeerUnreachable_def exampleIneligible_def examplePeerRecord_def mkNode_def

lemmas reconcile_defs = PerformStartupReconciliation_def ReadActiveDatacenter_def
  HeartbeatAge_def IsStale_def timeNow_def drainAndMark_def drainMyNodes_def GetNodes_def
  ListNodes_def SetNodeDrain_def cacheKey_def updateDrain_def







section \<open>The heartbeat loop\<close>







lemmas heartbeat_defs = heartbeatLoop_def heartbeatTick_def installEnv_def
  exampleReadFails_def exampleWriteFails_def exampleWriteFailsUnreachable_def
  WriteActiveDatacenter_def




text \<open>
  Claim C2, evaluated on the code. With \<open>max_failures = 3\<close>, three consecutive ticks at
  which \<^verbatim>\<open>ReadActiveDatacenter\<close> fails bring the failure counter to 3, and the instance is
  not drained: \<open>amDrained\<close> is still false, no \<^verbatim>\<open>SetNodeDrain\<close> call was issued and the node
  of the local datacenter is still ready. The read-failure branch increments the counter
  and continues with the next tick before the comparison with \<open>max_failures\<close>.
\<close>

theorem heartbeat_read_failures_no_drain:
  "MaxFailures exampleWorld = 3 \<and>
   ReadActiveDatacenter (installEnv exampleReadFails exampleWorld) = Inl EtcdReadFailed \<and>
   fst (heartbeatLoop exampleWorld [exampleReadFails, exampleReadFails, exampleReadFails]) = 3 \<and>
   \<not> amDrained (snd (heartbeatLoop exampleWorld
        [exampleReadFails, exampleReadFails, exampleReadFails])) \<and>
   drain_calls (snd (heartbeatLoop exampleWorld
        [exampleReadFails, exampleReadFails, exampleReadFails])) = [] \<and>
   nomad_nodes (snd (heartbeatLoop exampleWorld
        [exampleReadFails, exampleReadFails, exampleReadFails])) ''dcA'' =
     [mkNode ''a1'' False ''eligible'']"
  by (simp add: heartbeat_defs example_defs reconcile_defs)

end
